theory Spec2Isabelle
  imports Complex_Main
begin

section \<open>core/config.ts\<close>

definition ACCESS_TOKEN_KEY :: string where
  "ACCESS_TOKEN_KEY = ''accessToken''"

definition ACCESS_TOKEN_EXPIRY_KEY :: string where
  "ACCESS_TOKEN_EXPIRY_KEY = ''accessTokenExpiry''"

definition USER_KEY :: string where
  "USER_KEY = ''user''"

definition ACCESS_TOKEN_BUFFER :: int where
  "ACCESS_TOKEN_BUFFER = 60"

section \<open>The browser's localStorage\<close>

text \<open>
  localStorage maps string keys to string values. \<open>getItem\<close> answers \<open>null\<close> (here
  \<open>None\<close>) for a key that is not stored; an empty string is a stored value like any other.
  Writing never fails here: the storage has no quota.
\<close>

type_synonym storage = "string \<rightharpoonup> string"

definition getItem :: "storage \<Rightarrow> string \<Rightarrow> string option" where
  "getItem s k = s k"

definition setItem :: "string \<Rightarrow> string \<Rightarrow> storage \<Rightarrow> storage" where
  "setItem k v s = s(k \<mapsto> v)"

definition removeItem :: "string \<Rightarrow> storage \<Rightarrow> storage" where
  "removeItem k s = s(k := None)"

section \<open>JavaScript numbers and their decimal strings\<close>

text \<open>
  A finite number is given by the decimal value that \<open>Number.prototype.toString\<close> prints
  for it: \<open>Num i\<close> is the integer \<open>i\<close> (both zeros are \<open>Num 0\<close>), and \<open>Dec negative s n\<close>
  is the non-integer of magnitude \<open>s * 10^(n - k)\<close>, where \<open>k\<close> is the number of decimal
  digits of \<open>s\<close>, \<open>s\<close> is not a multiple of 10 and \<open>n < k\<close>. \<open>NaN\<close> is what \<open>parseInt\<close>
  answers on a string without digits. The infinities are left out. The decimal value is
  the IEEE double of the source itself on integers of magnitude up to \<open>2^53\<close>.
\<close>

datatype number = Num int | Dec bool nat int | NaN

text \<open>JavaScript truthiness of a \<open>string | null\<close> and of a \<open>number | null\<close>.\<close>

fun truthy_string :: "string option \<Rightarrow> bool" where
  "truthy_string None = False"
| "truthy_string (Some s) = (s \<noteq> [])"

fun truthy_number :: "number option \<Rightarrow> bool" where
  "truthy_number None = False"
| "truthy_number (Some NaN) = False"
| "truthy_number (Some (Num n)) = (n \<noteq> 0)"
| "truthy_number (Some (Dec negative s n)) = (s \<noteq> 0)"

definition digit_char :: "nat \<Rightarrow> char" where
  "digit_char d = char_of (48 + d)"

fun digits :: "nat \<Rightarrow> string" where
  "digits n = (if n < 10 then [digit_char n] else digits (n div 10) @ [digit_char (n mod 10)])"

declare digits.simps [simp del]

text \<open>
  \<open>Number.prototype.toString()\<close>, radix 10, as the standard gives it. For a finite number
  other than zero let \<open>s\<close> be its significant digits (\<open>k\<close> of them, the last one not 0) and
  \<open>n\<close> the position of the decimal point, so that the magnitude is \<open>s * 10^(n - k)\<close>. The text
  is: the digits and \<open>n - k\<close> zeros when \<open>k \<le> n \<le> 21\<close>; the digits with a point after the
  first \<open>n\<close> when \<open>0 < n \<le> 21\<close>; \<open>0.\<close>, \<open>- n\<close> zeros and the digits when \<open>- 6 < n \<le> 0\<close>; and
  the exponent form otherwise, so from \<open>10^21\<close> on for an integer.
\<close>

definition strip_trailing_zeros :: "string \<Rightarrow> string" where
  "strip_trailing_zeros ds = rev (dropWhile (\<lambda>c. c = CHR ''0'') (rev ds))"

definition exponent_form :: "string \<Rightarrow> int \<Rightarrow> string" where
  "exponent_form ds n =
     (case ds of
        [] \<Rightarrow> []
      | d # rest \<Rightarrow>
          (if rest = [] then [d] else d # CHR ''.'' # rest) @
          [CHR ''e'', if n - 1 < 0 then CHR ''-'' else CHR ''+''] @ digits (nat \<bar>n - 1\<bar>))"

definition finite_toString :: "string \<Rightarrow> int \<Rightarrow> string" where
  "finite_toString ds n =
     (let k = int (length ds)
      in if k \<le> n \<and> n \<le> 21 then ds @ replicate (nat (n - k)) CHR ''0''
         else if 0 < n \<and> n \<le> 21 then take (nat n) ds @ CHR ''.'' # drop (nat n) ds
         else if - 6 < n \<and> n \<le> 0 then ''0.'' @ replicate (nat (- n)) CHR ''0'' @ ds
         else exponent_form ds n)"

fun number_toString :: "number \<Rightarrow> string" where
  "number_toString NaN = ''NaN''"
| "number_toString (Num i) =
     (if i = 0 then ''0''
      else (if i < 0 then ''-'' else []) @
           (let ds = digits (nat \<bar>i\<bar>)
            in finite_toString (strip_trailing_zeros ds) (int (length ds))))"
| "number_toString (Dec negative s n) =
     (if negative then ''-'' else []) @ finite_toString (digits s) n"

declare number_toString.simps [simp del]

text \<open>
  \<open>parseInt(str, 10)\<close>: leading white space is skipped, one sign is read, then the longest
  prefix of decimal digits; no digit gives \<open>NaN\<close>. Characters are 8-bit code units here, so
  the white space of the standard is TAB, LF, VT, FF, CR, SP and NBSP. The answer is the
  exact integer read; the source rounds it to a double, which changes none of the
  comparisons made with it here.
\<close>

definition is_whitespace :: "char \<Rightarrow> bool" where
  "is_whitespace c = ((of_char c :: nat) \<in> {9, 10, 11, 12, 13, 32, 160})"

definition is_digit :: "char \<Rightarrow> bool" where
  "is_digit c = (48 \<le> (of_char c :: nat) \<and> (of_char c :: nat) \<le> 57)"

definition digit_value :: "char \<Rightarrow> nat" where
  "digit_value c = of_char c - 48"

definition digits_value :: "string \<Rightarrow> nat" where
  "digits_value Z = foldl (\<lambda>a c. 10 * a + digit_value c) 0 Z"

definition parseInt :: "string \<Rightarrow> number" where
  "parseInt str =
     (let S = dropWhile is_whitespace str;
          sign = (case S of [] \<Rightarrow> 1 | c # _ \<Rightarrow> if c = CHR ''-'' then - 1 else (1::int));
          S' = (case S of [] \<Rightarrow> S
                | c # rest \<Rightarrow> if c = CHR ''+'' \<or> c = CHR ''-'' then rest else S);
          Z = takeWhile is_digit S'
      in if Z = [] then NaN else Num (sign * int (digits_value Z)))"

section \<open>services/auth: the synchronous accessors of authService\<close>

definition authService_setTokens :: "string \<Rightarrow> number \<Rightarrow> storage \<Rightarrow> storage" where
  "authService_setTokens accessToken expiresAt s =
     setItem ACCESS_TOKEN_EXPIRY_KEY (number_toString expiresAt)
       (setItem ACCESS_TOKEN_KEY accessToken s)"

definition authService_getAccessToken :: "storage \<Rightarrow> string option" where
  "authService_getAccessToken s = getItem s ACCESS_TOKEN_KEY"

definition authService_getAccessTokenExpiry :: "storage \<Rightarrow> number option" where
  "authService_getAccessTokenExpiry s =
     (case getItem s ACCESS_TOKEN_EXPIRY_KEY of
        None \<Rightarrow> None
      | Some expiry \<Rightarrow> if truthy_string (Some expiry) then Some (parseInt expiry) else None)"

definition authService_clearTokens :: "storage \<Rightarrow> storage" where
  "authService_clearTokens s =
     removeItem USER_KEY (removeItem ACCESS_TOKEN_EXPIRY_KEY (removeItem ACCESS_TOKEN_KEY s))"

definition authService_isAuthenticated :: "storage \<Rightarrow> bool" where
  "authService_isAuthenticated s = (\<not> \<not> truthy_string (authService_getAccessToken s))"

section \<open>The REST backend behind apiFetch\<close>

text \<open>
  A rejected promise carries the thrown value. The callers only ask whether it is an
  \<open>Error\<close> instance, and then read its message.
\<close>

datatype thrown = Error string | NonError

record user =
  user_id :: int
  username :: string
  email :: string
  role :: string
  created_at :: string

record register_request =
  reg_username :: string
  reg_email :: string
  reg_password :: string
  reg_role :: string

record login_request =
  login_username :: string
  login_password :: string

text \<open>
  The token response of login and refresh. \<open>expires_at\<close> is declared a \<open>number\<close>: the
  server may send any, also a fraction of a second.
\<close>

record token_response =
  access_token :: string
  expires_at :: number

type_synonym message_response = string

datatype request =
    POST_auth_register register_request
  | POST_auth_login login_request
  | POST_auth_refresh
  | POST_auth_logout
  | POST_auth_logout_all
  | GET_users_me
  | POST_auth_change_password string string

text \<open>
  The module core/api is outside the sources: every call of \<open>apiFetch\<close> is answered by the
  backend, a parameter of the model. An answer may depend on the requests sent so far;
  \<open>Inl\<close> is a rejected promise, \<open>Inr\<close> the parsed body with the shape the service
  declares for that endpoint.
\<close>

record backend =
  auth_register :: "request list \<Rightarrow> register_request \<Rightarrow> thrown + message_response"
  auth_login :: "request list \<Rightarrow> login_request \<Rightarrow> thrown + token_response"
  auth_refresh :: "request list \<Rightarrow> thrown + token_response"
  auth_logout :: "request list \<Rightarrow> thrown + message_response"
  auth_logout_all :: "request list \<Rightarrow> thrown + message_response"
  users_me :: "request list \<Rightarrow> thrown + user"
  auth_change_password :: "request list \<Rightarrow> string \<Rightarrow> string \<Rightarrow> thrown + message_response"

text \<open>The client side of the world: the durable storage and the requests sent so far.\<close>

record world =
  storage :: storage
  sent :: "request list"

definition apiFetch :: "(request list \<Rightarrow> thrown + 'a) \<Rightarrow> request \<Rightarrow> world \<Rightarrow> (thrown + 'a) \<times> world" where
  "apiFetch answer rq w = (answer (sent w), w\<lparr>sent := sent w @ [rq]\<rparr>)"

section \<open>services/auth: the asynchronous operations of authService\<close>

definition authService_register :: "backend \<Rightarrow> register_request \<Rightarrow> world \<Rightarrow> (thrown + message_response) \<times> world" where
  "authService_register b data w =
     apiFetch (\<lambda>h. auth_register b h data) (POST_auth_register data) w"

definition authService_login :: "backend \<Rightarrow> login_request \<Rightarrow> world \<Rightarrow> (thrown + token_response) \<times> world" where
  "authService_login b data w =
     (case apiFetch (\<lambda>h. auth_login b h data) (POST_auth_login data) w of
        (Inl err, w') \<Rightarrow> (Inl err, w')
      | (Inr response, w') \<Rightarrow>
          (Inr response,
           w'\<lparr>storage := authService_setTokens (access_token response) (expires_at response) (storage w')\<rparr>))"

definition authService_refresh :: "backend \<Rightarrow> world \<Rightarrow> (thrown + token_response) \<times> world" where
  "authService_refresh b w =
     (case apiFetch (auth_refresh b) POST_auth_refresh w of
        (Inl err, w') \<Rightarrow> (Inl err, w')
      | (Inr response, w') \<Rightarrow>
          (Inr response,
           w'\<lparr>storage := authService_setTokens (access_token response) (expires_at response) (storage w')\<rparr>))"

definition authService_logout :: "backend \<Rightarrow> world \<Rightarrow> (thrown + message_response) \<times> world" where
  "authService_logout b w =
     (case apiFetch (auth_logout b) POST_auth_logout w of
        (Inr response, w') \<Rightarrow> (Inr response, w'\<lparr>storage := authService_clearTokens (storage w')\<rparr>)
      | (Inl err, w') \<Rightarrow> (Inl err, w'\<lparr>storage := authService_clearTokens (storage w')\<rparr>))"

definition authService_logoutAll :: "backend \<Rightarrow> world \<Rightarrow> (thrown + message_response) \<times> world" where
  "authService_logoutAll b w =
     (case apiFetch (auth_logout_all b) POST_auth_logout_all w of
        (Inr response, w') \<Rightarrow> (Inr response, w'\<lparr>storage := authService_clearTokens (storage w')\<rparr>)
      | (Inl err, w') \<Rightarrow> (Inl err, w'\<lparr>storage := authService_clearTokens (storage w')\<rparr>))"

definition authService_getCurrentUser :: "backend \<Rightarrow> world \<Rightarrow> (thrown + user) \<times> world" where
  "authService_getCurrentUser b w = apiFetch (users_me b) GET_users_me w"

definition authService_changePassword :: "backend \<Rightarrow> string \<Rightarrow> string \<Rightarrow> world \<Rightarrow> (thrown + message_response) \<times> world" where
  "authService_changePassword b currentPassword newPassword w =
     apiFetch (\<lambda>h. auth_change_password b h currentPassword newPassword)
       (POST_auth_change_password currentPassword newPassword) w"

text \<open>
  \<open>setUser\<close> stores \<open>JSON.stringify(user)\<close>. The text depends on the shape of the object
  the server sent, so the serialisation is a parameter.
\<close>

definition authService_setUser :: "(user \<Rightarrow> string) \<Rightarrow> user \<Rightarrow> storage \<Rightarrow> storage" where
  "authService_setUser JSON_stringify u s = setItem USER_KEY (JSON_stringify u) s"

section \<open>hooks/useTokenRefresh.ts\<close>

text \<open>
  The arithmetic of \<open>isTokenExpiringSoon\<close>: \<open>null\<close> counts as 0 in a subtraction, a
  difference is the exact value (\<open>None\<close> when it is \<open>NaN\<close>), and every comparison with
  \<open>NaN\<close> is false.
\<close>

fun to_number :: "number option \<Rightarrow> number" where
  "to_number None = Num 0"
| "to_number (Some x) = x"

fun number_value :: "number \<Rightarrow> rat option" where
  "number_value NaN = None"
| "number_value (Num i) = Some (of_int i)"
| "number_value (Dec negative s n) =
     Some ((if negative then - 1 else 1) * of_nat s *
           (let e = n - int (length (digits s))
            in if 0 \<le> e then 10 ^ nat e else 1 / 10 ^ nat (- e)))"

definition number_minus :: "number \<Rightarrow> number \<Rightarrow> rat option" where
  "number_minus x y =
     (case (number_value x, number_value y) of
        (Some a, Some b) \<Rightarrow> Some (a - b)
      | _ \<Rightarrow> None)"

definition number_less :: "rat option \<Rightarrow> number \<Rightarrow> bool" where
  "number_less d y =
     (case (d, number_value y) of
        (Some a, Some b) \<Rightarrow> a < b
      | _ \<Rightarrow> False)"

text \<open>
  \<open>now\<close> is \<open>Math.floor(Date.now() / 1000)\<close>, the clock read in seconds. Nothing in the
  \<open>try\<close> block can throw on numbers, so its \<open>catch\<close> has no branch here.
\<close>

definition isTokenExpiringSoon :: "storage \<Rightarrow> int \<Rightarrow> bool" where
  "isTokenExpiringSoon s now =
     (let token = authService_getAccessToken s;
          expiryTime = authService_getAccessTokenExpiry s
      in if \<not> truthy_string token \<or> \<not> truthy_number expiryTime then True
         else (let expiringIn = number_minus (to_number expiryTime) (Num now)
               in number_less expiringIn (Num ACCESS_TOKEN_BUFFER)))"

definition refreshToken :: "backend \<Rightarrow> world \<Rightarrow> bool \<times> world" where
  "refreshToken b w =
     (case authService_refresh b w of
        (Inr response, w') \<Rightarrow> (True, w')
      | (Inl err, w') \<Rightarrow> (False, w'\<lparr>storage := authService_clearTokens (storage w')\<rparr>))"

section \<open>contexts/AuthContext.tsx\<close>

record auth_state =
  user :: "user option"
  isLoading :: bool
  error :: "string option"

definition initial_auth_state :: auth_state where
  "initial_auth_state = \<lparr>user = None, isLoading = True, error = None\<rparr>"

text \<open>\<open>err instanceof Error ? err.message : fallback\<close>\<close>

fun error_message :: "thrown \<Rightarrow> string \<Rightarrow> string" where
  "error_message (Error message) fallback = message"
| "error_message NonError fallback = fallback"

text \<open>
  The effect that runs once on mount. Each operation of the provider is given as the state
  and world it ends in; an operation that re-throws also returns the thrown value.
\<close>

definition initAuth :: "(user \<Rightarrow> string) \<Rightarrow> backend \<Rightarrow> auth_state \<times> world \<Rightarrow> auth_state \<times> world" where
  "initAuth JSON_stringify b = (\<lambda>(st, w).
     if authService_isAuthenticated (storage w) then
       (case authService_getCurrentUser b w of
          (Inr currentUser, w1) \<Rightarrow>
            (st\<lparr>user := Some currentUser, isLoading := False\<rparr>,
             w1\<lparr>storage := authService_setUser JSON_stringify currentUser (storage w1)\<rparr>)
        | (Inl err, w1) \<Rightarrow>
            (st\<lparr>user := None, isLoading := False\<rparr>,
             w1\<lparr>storage := authService_clearTokens (storage w1)\<rparr>))
     else (st\<lparr>isLoading := False\<rparr>, w))"

definition mount :: "(user \<Rightarrow> string) \<Rightarrow> backend \<Rightarrow> world \<Rightarrow> auth_state \<times> world" where
  "mount JSON_stringify b w = initAuth JSON_stringify b (initial_auth_state, w)"

definition catch_block :: "string \<Rightarrow> thrown \<Rightarrow> auth_state \<Rightarrow> world \<Rightarrow> (thrown + unit) \<times> auth_state \<times> world" where
  "catch_block fallback err st w =
     (Inl err, st\<lparr>error := Some (error_message err fallback), isLoading := False\<rparr>, w)"

definition AuthProvider_register ::
  "(user \<Rightarrow> string) \<Rightarrow> backend \<Rightarrow> register_request \<Rightarrow> auth_state \<times> world \<Rightarrow> (thrown + unit) \<times> auth_state \<times> world" where
  "AuthProvider_register JSON_stringify b data = (\<lambda>(st, w).
     let st0 = st\<lparr>isLoading := True, error := None\<rparr> in
     case authService_register b data w of
       (Inl err, w1) \<Rightarrow> catch_block ''Registration failed'' err st0 w1
     | (Inr _, w1) \<Rightarrow>
        (case authService_login b \<lparr>login_username = reg_email data, login_password = reg_password data\<rparr> w1 of
           (Inl err, w2) \<Rightarrow> catch_block ''Registration failed'' err st0 w2
         | (Inr _, w2) \<Rightarrow>
            (case authService_getCurrentUser b w2 of
               (Inl err, w3) \<Rightarrow> catch_block ''Registration failed'' err st0 w3
             | (Inr currentUser, w3) \<Rightarrow>
                 (Inr (), st0\<lparr>user := Some currentUser, isLoading := False\<rparr>,
                  w3\<lparr>storage := authService_setUser JSON_stringify currentUser (storage w3)\<rparr>))))"

definition AuthProvider_login ::
  "(user \<Rightarrow> string) \<Rightarrow> backend \<Rightarrow> login_request \<Rightarrow> auth_state \<times> world \<Rightarrow> (thrown + unit) \<times> auth_state \<times> world" where
  "AuthProvider_login JSON_stringify b data = (\<lambda>(st, w).
     let st0 = st\<lparr>isLoading := True, error := None\<rparr> in
     case authService_login b data w of
       (Inl err, w1) \<Rightarrow> catch_block ''Login failed'' err st0 w1
     | (Inr _, w1) \<Rightarrow>
        (case authService_getCurrentUser b w1 of
           (Inl err, w2) \<Rightarrow> catch_block ''Login failed'' err st0 w2
         | (Inr currentUser, w2) \<Rightarrow>
             (Inr (), st0\<lparr>user := Some currentUser, isLoading := False\<rparr>,
              w2\<lparr>storage := authService_setUser JSON_stringify currentUser (storage w2)\<rparr>)))"

definition AuthProvider_logout :: "backend \<Rightarrow> auth_state \<times> world \<Rightarrow> (thrown + unit) \<times> auth_state \<times> world" where
  "AuthProvider_logout b = (\<lambda>(st, w).
     let st0 = st\<lparr>isLoading := True, error := None\<rparr> in
     case authService_logout b w of
       (Inl err, w1) \<Rightarrow> catch_block ''Logout failed'' err st0 w1
     | (Inr _, w1) \<Rightarrow> (Inr (), st0\<lparr>user := None, isLoading := False\<rparr>, w1))"

definition AuthProvider_logoutAll :: "backend \<Rightarrow> auth_state \<times> world \<Rightarrow> (thrown + unit) \<times> auth_state \<times> world" where
  "AuthProvider_logoutAll b = (\<lambda>(st, w).
     let st0 = st\<lparr>isLoading := True, error := None\<rparr> in
     case authService_logoutAll b w of
       (Inl err, w1) \<Rightarrow> catch_block ''Logout failed'' err st0 w1
     | (Inr _, w1) \<Rightarrow> (Inr (), st0\<lparr>user := None, isLoading := False\<rparr>, w1))"

definition clearError :: "auth_state \<Rightarrow> auth_state" where
  "clearError st = st\<lparr>error := None\<rparr>"

definition AuthProvider_changePassword ::
  "backend \<Rightarrow> string \<Rightarrow> string \<Rightarrow> auth_state \<times> world \<Rightarrow> (thrown + unit) \<times> auth_state \<times> world" where
  "AuthProvider_changePassword b currentPassword newPassword = (\<lambda>(st, w).
     let st0 = st\<lparr>isLoading := True, error := None\<rparr> in
     case authService_changePassword b currentPassword newPassword w of
       (Inl err, w1) \<Rightarrow> catch_block ''Failed to change password'' err st0 w1
     | (Inr _, w1) \<Rightarrow> (Inr (), st0\<lparr>isLoading := False\<rparr>, w1))"

text \<open>The \<open>isAuthenticated\<close> of the context value is \<open>!!user\<close>.\<close>

definition AuthProvider_isAuthenticated :: "auth_state \<Rightarrow> bool" where
  "AuthProvider_isAuthenticated st = (user st \<noteq> None)"

section \<open>features/MySubmissions/MySubmissions.tsx\<close>

text \<open>
  The claims about this page concern the number of rows only, so a submission is a type
  parameter. The body of the response is an array, or an object whose \<open>data\<close> or
  \<open>submissions\<close> field may hold the array (an array is truthy even when empty).
\<close>

datatype 'sub submissions_body =
    ArrayBody "'sub list"
  | ObjectBody "'sub list option" "'sub list option"

fun submissionData :: "'sub submissions_body \<Rightarrow> 'sub list" where
  "submissionData (ArrayBody xs) = xs"
| "submissionData (ObjectBody (Some d) _) = d"
| "submissionData (ObjectBody None (Some sb)) = sb"
| "submissionData (ObjectBody None None) = []"

record 'sub page_state =
  loading :: bool
  submissions :: "'sub list"
  page_error :: "string option"
  currentPage :: int

definition itemsPerPage :: int where
  "itemsPerPage = 10"

definition initial_page_state :: "'sub page_state" where
  "initial_page_state = \<lparr>loading = True, submissions = [], page_error = None, currentPage = 1\<rparr>"

text \<open>
  \<open>api skip limit\<close> is the answer to
  \<open>GET /submissions/me/submissions?skip=..&limit=..\<close>.
\<close>

definition fetchSubmissions ::
  "(int \<Rightarrow> int \<Rightarrow> thrown + 'sub submissions_body) \<Rightarrow> 'sub page_state \<Rightarrow> 'sub page_state" where
  "fetchSubmissions api st =
     (let st0 = st\<lparr>loading := True\<rparr>;
          skip = (currentPage st - 1) * itemsPerPage
      in case api skip itemsPerPage of
           Inr data \<Rightarrow>
             st0\<lparr>submissions := submissionData data, page_error := None, loading := False\<rparr>
         | Inl err \<Rightarrow>
             st0\<lparr>page_error := Some (error_message err ''Failed to fetch submissions''),
                 submissions := [], loading := False\<rparr>)"

definition previous_onClick :: "'sub page_state \<Rightarrow> 'sub page_state" where
  "previous_onClick st = st\<lparr>currentPage := max 1 (currentPage st - 1)\<rparr>"

definition next_onClick :: "'sub page_state \<Rightarrow> 'sub page_state" where
  "next_onClick st = st\<lparr>currentPage := currentPage st + 1\<rparr>"

text \<open>What the component returns, down to the parts the properties speak of.\<close>

record pagination =
  previous_disabled :: bool
  pagination_info :: int
  next_disabled :: bool

datatype 'sub content =
    EmptyState
  | SubmissionsTable "'sub list" "pagination option"

datatype 'sub view =
    LoadingState
  | SubmissionsView "string option" "'sub content"

definition MySubmissionsPage :: "'sub page_state \<Rightarrow> 'sub view" where
  "MySubmissionsPage st =
     (if loading st \<and> length (submissions st) = 0 then LoadingState
      else SubmissionsView
        (if truthy_string (page_error st) then page_error st else None)
        (if length (submissions st) = 0 then EmptyState
         else SubmissionsTable (submissions st)
           (if length (submissions st) > 0
            then Some \<lparr>previous_disabled = (currentPage st = 1),
                       pagination_info = currentPage st,
                       next_disabled = (int (length (submissions st)) < itemsPerPage)\<rparr>
            else None)))"

fun view_pagination :: "'sub view \<Rightarrow> pagination option" where
  "view_pagination LoadingState = None"
| "view_pagination (SubmissionsView _ EmptyState) = None"
| "view_pagination (SubmissionsView _ (SubmissionsTable _ p)) = p"

fun shows_empty_state :: "'sub view \<Rightarrow> bool" where
  "shows_empty_state (SubmissionsView _ EmptyState) = True"
| "shows_empty_state _ = False"

section \<open>features/Dashboard\<close>

datatype active_section = problems | issues

datatype component =
    Navbar
  | AdminSidebar active_section
  | AdminProblems
  | AdminIssues

datatype element =
    Component component
  | Tag string string "element list"

text \<open>\<open>user?.role\<close>\<close>

fun optional_role :: "user option \<Rightarrow> string option" where
  "optional_role None = None"
| "optional_role (Some u) = Some (role u)"

text \<open>
  The module imports \<open>Navbar\<close>, \<open>AdminSidebar\<close>, \<open>AdminProblems\<close> and \<open>AdminIssues\<close>.
  It neither imports nor declares \<open>ProblemsListPage\<close>, the name its customer branch
  evaluates: reading an undeclared name throws a \<open>ReferenceError\<close>, an \<open>Error\<close> whose
  message names it.
\<close>

definition ReferenceError :: "string \<Rightarrow> thrown" where
  "ReferenceError name = Error (name @ '' is not defined'')"

definition Dashboard :: "user option \<Rightarrow> active_section \<Rightarrow> thrown + element" where
  "Dashboard usr activeSection =
     (if optional_role usr = Some ''USER'' then Inl (ReferenceError ''ProblemsListPage'')
      else Inr (Tag ''div'' ''admin-dashboard-wrapper''
        [Component Navbar,
         Tag ''div'' ''admin-dashboard-container''
           [Component (AdminSidebar activeSection),
            Tag ''main'' ''admin-dashboard-content''
              ((if activeSection = problems then [Component AdminProblems] else []) @
               (if activeSection = issues then [Component AdminIssues] else []))]]))"

text \<open>The components an element renders, in document order.\<close>

fun rendered :: "element \<Rightarrow> component list" where
  "rendered (Component c) = [c]"
| "rendered (Tag t cls children) = concat (map rendered children)"

section \<open>Concrete sessions and backends\<close>

definition stored_session :: "string \<Rightarrow> string \<Rightarrow> storage" where
  "stored_session token expiry =
     setItem ACCESS_TOKEN_EXPIRY_KEY expiry (setItem ACCESS_TOKEN_KEY token Map.empty)"

definition fresh_world :: world where
  "fresh_world = \<lparr>storage = Map.empty, sent = []\<rparr>"

definition returning_world :: world where
  "returning_world = \<lparr>storage = stored_session ''tok'' ''1700003600'', sent = []\<rparr>"

definition alice :: user where
  "alice = \<lparr>user_id = 1, username = ''alice'', email = ''alice@example.org'',
            role = ''USER'', created_at = ''2025-01-01T00:00:00Z''\<rparr>"

definition alice_registration :: register_request where
  "alice_registration = \<lparr>reg_username = ''alice'', reg_email = ''alice@example.org'',
                         reg_password = ''secret'', reg_role = ''USER''\<rparr>"

definition alice_credentials :: login_request where
  "alice_credentials = \<lparr>login_username = ''alice@example.org'', login_password = ''secret''\<rparr>"

definition fresh_token :: token_response where
  "fresh_token = \<lparr>access_token = ''tok'', expires_at = Num 1700003600\<rparr>"

text \<open>A serialisation for the closed examples; it keeps the user name only.\<close>

definition stringify_username :: "user \<Rightarrow> string" where
  "stringify_username u = username u"

definition backend_up :: backend where
  "backend_up =
     \<lparr>auth_register = (\<lambda>h data. Inr ''registered''),
      auth_login = (\<lambda>h data. Inr fresh_token),
      auth_refresh = (\<lambda>h. Inr fresh_token),
      auth_logout = (\<lambda>h. Inr ''logged out''),
      auth_logout_all = (\<lambda>h. Inr ''logged out everywhere''),
      users_me = (\<lambda>h. Inr alice),
      auth_change_password = (\<lambda>h cur new. Inr ''changed'')\<rparr>"

definition backend_rejecting_login :: backend where
  "backend_rejecting_login = backend_up\<lparr>auth_login := (\<lambda>h data. Inl (Error ''Invalid credentials''))\<rparr>"

definition backend_rejecting_users_me :: backend where
  "backend_rejecting_users_me = backend_up\<lparr>users_me := (\<lambda>h. Inl (Error ''Unauthorized''))\<rparr>"

definition backend_rejecting_refresh :: backend where
  "backend_rejecting_refresh = backend_up\<lparr>auth_refresh := (\<lambda>h. Inl (Error ''Unauthorized''))\<rparr>"

text \<open>
  Two logins the server may answer: an expiry with half a second, 1700003600.5, and the
  expiry \<open>10^21\<close>.
\<close>

definition backend_fractional_expiry :: backend where
  "backend_fractional_expiry =
     backend_up\<lparr>auth_login :=
       (\<lambda>h data. Inr \<lparr>access_token = ''tok'', expires_at = Dec False 17000036005 10\<rparr>)\<rparr>"

definition backend_distant_expiry :: backend where
  "backend_distant_expiry =
     backend_up\<lparr>auth_login :=
       (\<lambda>h data. Inr \<lparr>access_token = ''tok'', expires_at = Num 1000000000000000000000\<rparr>)\<rparr>"

text \<open>Answers to the submissions request: a short page of three rows, and no row at all.\<close>

definition three_submissions :: "int \<Rightarrow> int \<Rightarrow> thrown + nat submissions_body" where
  "three_submissions skip limit = Inr (ArrayBody [1, 2, 3])"

definition no_submissions :: "int \<Rightarrow> int \<Rightarrow> thrown + nat submissions_body" where
  "no_submissions skip limit = Inr (ArrayBody [])"

section \<open>Decimal strings are read back exactly\<close>

lemma is_digit_digit_char: "d < 10 \<Longrightarrow> is_digit (digit_char d)"
  by (simp add: is_digit_def digit_char_def)

lemma digit_value_digit_char: "d < 10 \<Longrightarrow> digit_value (digit_char d) = d"
  by (simp add: digit_value_def digit_char_def)

lemma digits_all_digit: "\<forall>c \<in> set (digits n). is_digit c"
proof (induction n rule: digits.induct)
  case (1 n)
  show ?case
  proof (cases "n < 10")
    case True
    then show ?thesis by (subst digits.simps) (simp add: is_digit_digit_char)
  next
    case False
    with 1 show ?thesis by (subst digits.simps) (simp add: is_digit_digit_char)
  qed
qed

lemma digits_nonempty: "digits n \<noteq> []"
  by (subst digits.simps) simp

lemma digits_value_snoc: "digits_value (Z @ [c]) = 10 * digits_value Z + digit_value c"
  by (simp add: digits_value_def)

lemma digits_value_digits: "digits_value (digits n) = n"
proof (induction n rule: digits.induct)
  case (1 n)
  show ?case
  proof (cases "n < 10")
    case True
    then show ?thesis by (subst digits.simps) (simp add: digits_value_def digit_value_digit_char)
  next
    case False
    with 1 show ?thesis
      by (subst digits.simps) (simp add: digits_value_snoc digit_value_digit_char)
  qed
qed

lemma is_digit_not_special:
  "is_digit c \<Longrightarrow> \<not> is_whitespace c \<and> c \<noteq> CHR ''-'' \<and> c \<noteq> CHR ''+''"
  by (auto simp: is_digit_def is_whitespace_def)

lemma takeWhile_digits: "takeWhile is_digit (digits n) = digits n"
  using digits_all_digit [of n] by simp

lemma parseInt_digits: "parseInt (digits n) = Num (int n)"
proof -
  obtain c cs where dc: "digits n = c # cs"
    using digits_nonempty [of n] by (cases "digits n") auto
  have "is_digit c"
    using digits_all_digit [of n] dc by simp
  then have c: "\<not> is_whitespace c" "c \<noteq> CHR ''-''" "c \<noteq> CHR ''+''"
    using is_digit_not_special by blast+
  have S: "dropWhile is_whitespace (digits n) = digits n"
    using c dc by simp
  have "parseInt (digits n) =
          (if takeWhile is_digit (digits n) = [] then NaN
           else Num (1 * int (digits_value (takeWhile is_digit (digits n)))))"
    unfolding parseInt_def S Let_def using c dc by simp
  then show ?thesis
    by (simp add: takeWhile_digits digits_nonempty digits_value_digits)
qed

lemma parseInt_minus_digits: "parseInt (CHR ''-'' # digits n) = Num (- int n)"
proof -
  have ws: "\<not> is_whitespace CHR ''-''" by (simp add: is_whitespace_def)
  have "parseInt (CHR ''-'' # digits n) =
          (if takeWhile is_digit (digits n) = [] then NaN
           else Num (- 1 * int (digits_value (takeWhile is_digit (digits n)))))"
    unfolding parseInt_def Let_def using ws by simp
  then show ?thesis
    by (simp add: takeWhile_digits digits_nonempty digits_value_digits)
qed

lemma digits_length_le: "0 < j \<Longrightarrow> m < 10 ^ j \<Longrightarrow> length (digits m) \<le> j"
proof (induction m arbitrary: j rule: digits.induct)
  case (1 n)
  show ?case
  proof (cases "n < 10")
    case True
    then show ?thesis using "1.prems" by (subst digits.simps) simp
  next
    case False
    obtain i where j: "j = Suc i" using "1.prems"(1) by (cases j) auto
    have "i \<noteq> 0" using False "1.prems"(2) j by (cases i) auto
    moreover have "n div 10 < 10 ^ i" using "1.prems"(2) j by (simp add: less_mult_imp_div_less)
    ultimately have "length (digits (n div 10)) \<le> i" using "1.IH" [of i] False by simp
    then show ?thesis using False j by (subst digits.simps) simp
  qed
qed

lemma takeWhile_eq_replicate:
  "takeWhile (\<lambda>c. c = z) ys = replicate (length (takeWhile (\<lambda>c. c = z) ys)) z"
  by (induction ys) auto

lemma strip_trailing_zeros_append:
  "strip_trailing_zeros ds @ replicate (length ds - length (strip_trailing_zeros ds)) CHR ''0'' = ds"
proof -
  let ?P = "\<lambda>c. c = CHR ''0''"
  have split: "ds = rev (dropWhile ?P (rev ds)) @ rev (takeWhile ?P (rev ds))"
    by (metis rev_append rev_rev_ident takeWhile_dropWhile_id)
  have len: "length ds - length (strip_trailing_zeros ds) = length (takeWhile ?P (rev ds))"
    using arg_cong [OF split, of length] by (simp add: strip_trailing_zeros_def)
  have "rev (takeWhile ?P (rev ds)) = replicate (length (takeWhile ?P (rev ds))) CHR ''0''"
    using takeWhile_eq_replicate [of "CHR ''0''" "rev ds"] by (metis rev_replicate)
  then show ?thesis
    using split len by (simp add: strip_trailing_zeros_def)
qed

lemma length_strip_trailing_zeros: "length (strip_trailing_zeros ds) \<le> length ds"
  by (simp add: strip_trailing_zeros_def length_dropWhile_le [of _ "rev ds", simplified])

lemma finite_toString_integer:
  assumes "length ds \<le> 21"
  shows "finite_toString (strip_trailing_zeros ds) (int (length ds)) = ds"
proof -
  have "int (length (strip_trailing_zeros ds)) \<le> int (length ds)"
    using length_strip_trailing_zeros [of ds] by simp
  moreover have "nat (int (length ds) - int (length (strip_trailing_zeros ds)))
      = length ds - length (strip_trailing_zeros ds)"
    by simp
  ultimately show ?thesis
    using assms strip_trailing_zeros_append [of ds]
    by (simp add: finite_toString_def Let_def)
qed

lemma digit_char_values:
  "digit_char 0 = CHR ''0''" "digit_char 1 = CHR ''1''" "digit_char 2 = CHR ''2''"
  "digit_char 3 = CHR ''3''" "digit_char 4 = CHR ''4''" "digit_char 5 = CHR ''5''"
  "digit_char 6 = CHR ''6''" "digit_char 7 = CHR ''7''" "digit_char 8 = CHR ''8''"
  "digit_char 9 = CHR ''9''" "digit_char (Suc 0) = CHR ''1''"
  by (simp_all add: digit_char_def char_of_eq_iff)

lemma number_toString_integer:
  assumes "\<bar>i\<bar> < 10 ^ 21"
  shows "number_toString (Num i) = (if i < 0 then CHR ''-'' # digits (nat (- i)) else digits (nat i))"
proof -
  have "nat \<bar>i\<bar> < 10 ^ 21"
    using assms by (simp add: nat_less_iff)
  then have "length (digits (nat \<bar>i\<bar>)) \<le> 21"
    using digits_length_le [of 21 "nat \<bar>i\<bar>"] by simp
  then have f: "finite_toString (strip_trailing_zeros (digits (nat \<bar>i\<bar>)))
      (int (length (digits (nat \<bar>i\<bar>)))) = digits (nat \<bar>i\<bar>)"
    by (rule finite_toString_integer)
  have z: "digits 0 = ''0''"
    by (subst digits.simps) (simp add: digit_char_values)
  show ?thesis
  proof (cases "i = 0")
    case True
    then show ?thesis by (simp add: number_toString.simps z)
  next
    case False
    then show ?thesis using f by (auto simp add: number_toString.simps Let_def abs_if)
  qed
qed

lemma parseInt_number_toString:
  assumes "\<bar>i\<bar> < 10 ^ 21"
  shows "parseInt (number_toString (Num i)) = Num i"
  unfolding number_toString_integer [OF assms]
  by (cases "i < 0") (simp_all add: parseInt_digits parseInt_minus_digits)

lemma number_toString_integer_nonempty:
  assumes "\<bar>i\<bar> < 10 ^ 21"
  shows "number_toString (Num i) \<noteq> []"
  unfolding number_toString_integer [OF assms]
  by (simp add: digits_nonempty)

lemma parseInt_literals:
  "parseInt ''1700003600'' = Num 1700003600"
  "parseInt ''0'' = Num 0"
  "parseInt ''abc'' = NaN"
  "parseInt ''1700003600.5'' = Num 1700003600"
  "parseInt ''1e+21'' = Num 1"
  by (simp_all add: parseInt_def is_whitespace_def is_digit_def digits_value_def digit_value_def)

lemma number_toString_literals:
  "number_toString (Dec False 17000036005 10) = ''1700003600.5''"
  "number_toString (Num 1000000000000000000000) = ''1e+21''"
  by (simp_all add: number_toString.simps finite_toString_def exponent_form_def
      strip_trailing_zeros_def digits.simps digit_char_values Let_def)

section \<open>The storage accessors\<close>

lemma keys_distinct:
  "ACCESS_TOKEN_KEY \<noteq> ACCESS_TOKEN_EXPIRY_KEY" "ACCESS_TOKEN_KEY \<noteq> USER_KEY"
  "ACCESS_TOKEN_EXPIRY_KEY \<noteq> USER_KEY"
  by (simp_all add: ACCESS_TOKEN_KEY_def ACCESS_TOKEN_EXPIRY_KEY_def USER_KEY_def)

lemma clearTokens_absent:
  "getItem (authService_clearTokens s) ACCESS_TOKEN_KEY = None"
  "getItem (authService_clearTokens s) ACCESS_TOKEN_EXPIRY_KEY = None"
  "getItem (authService_clearTokens s) USER_KEY = None"
  by (simp_all add: authService_clearTokens_def getItem_def removeItem_def)

lemma getAccessToken_setTokens:
  "authService_getAccessToken (authService_setTokens t n s) = Some t"
  using keys_distinct
  by (simp add: authService_getAccessToken_def authService_setTokens_def getItem_def setItem_def)

lemma getItem_expiry_setTokens:
  "getItem (authService_setTokens t x s) ACCESS_TOKEN_EXPIRY_KEY = Some (number_toString x)"
  by (simp add: authService_setTokens_def getItem_def setItem_def)

lemma getAccessTokenExpiry_setTokens:
  assumes "\<bar>n\<bar> < 10 ^ 21"
  shows "authService_getAccessTokenExpiry (authService_setTokens t (Num n) s) = Some (Num n)"
  using number_toString_integer_nonempty [OF assms] parseInt_number_toString [OF assms]
  by (simp add: authService_getAccessTokenExpiry_def getItem_expiry_setTokens)

lemma stored_session_items:
  "getItem (stored_session token expiry) ACCESS_TOKEN_KEY = Some token"
  "getItem (stored_session token expiry) ACCESS_TOKEN_EXPIRY_KEY = Some expiry"
  using keys_distinct by (simp_all add: stored_session_def getItem_def setItem_def)

section \<open>The service calls, as one answer of the backend each\<close>

lemma authService_register_eq:
  "authService_register b data w =
     (auth_register b (sent w) data, w\<lparr>sent := sent w @ [POST_auth_register data]\<rparr>)"
  by (simp add: authService_register_def apiFetch_def)

lemma authService_login_eq:
  "authService_login b data w =
     (case auth_login b (sent w) data of
        Inl err \<Rightarrow> (Inl err, w\<lparr>sent := sent w @ [POST_auth_login data]\<rparr>)
      | Inr response \<Rightarrow>
          (Inr response,
           w\<lparr>sent := sent w @ [POST_auth_login data],
             storage := authService_setTokens (access_token response) (expires_at response) (storage w)\<rparr>))"
  by (simp add: authService_login_def apiFetch_def split: sum.splits)

lemma authService_refresh_eq:
  "authService_refresh b w =
     (case auth_refresh b (sent w) of
        Inl err \<Rightarrow> (Inl err, w\<lparr>sent := sent w @ [POST_auth_refresh]\<rparr>)
      | Inr response \<Rightarrow>
          (Inr response,
           w\<lparr>sent := sent w @ [POST_auth_refresh],
             storage := authService_setTokens (access_token response) (expires_at response) (storage w)\<rparr>))"
  by (simp add: authService_refresh_def apiFetch_def split: sum.splits)

lemma authService_getCurrentUser_eq:
  "authService_getCurrentUser b w = (users_me b (sent w), w\<lparr>sent := sent w @ [GET_users_me]\<rparr>)"
  by (simp add: authService_getCurrentUser_def apiFetch_def)

section \<open>Sign-out\<close>

text \<open>
  C1. After \<open>logout()\<close> and after \<open>logoutAll()\<close>, whatever the remote POST answers, the
  access token, the expiry and the user are absent from storage. The outcome of the call is
  the outcome of the POST: its body when it succeeds, and the thrown error, re-thrown after
  the clearing, when it fails.
\<close>

theorem logout_clears_storage:
  "getItem (storage (snd (authService_logout b w))) ACCESS_TOKEN_KEY = None \<and>
   getItem (storage (snd (authService_logout b w))) ACCESS_TOKEN_EXPIRY_KEY = None \<and>
   getItem (storage (snd (authService_logout b w))) USER_KEY = None \<and>
   fst (authService_logout b w) = auth_logout b (sent w) \<and>
   getItem (storage (snd (authService_logoutAll b w))) ACCESS_TOKEN_KEY = None \<and>
   getItem (storage (snd (authService_logoutAll b w))) ACCESS_TOKEN_EXPIRY_KEY = None \<and>
   getItem (storage (snd (authService_logoutAll b w))) USER_KEY = None \<and>
   fst (authService_logoutAll b w) = auth_logout_all b (sent w)"
proof -
  have out: "authService_logout b w =
      (auth_logout b (sent w),
       w\<lparr>sent := sent w @ [POST_auth_logout], storage := authService_clearTokens (storage w)\<rparr>)"
    by (cases "auth_logout b (sent w)") (simp_all add: authService_logout_def apiFetch_def)
  have all: "authService_logoutAll b w =
      (auth_logout_all b (sent w),
       w\<lparr>sent := sent w @ [POST_auth_logout_all], storage := authService_clearTokens (storage w)\<rparr>)"
    by (cases "auth_logout_all b (sent w)") (simp_all add: authService_logoutAll_def apiFetch_def)
  show ?thesis
    by (simp add: out all clearTokens_absent)
qed

section \<open>Expiry\<close>

lemma parseInt_cases: "parseInt x = NaN \<or> (\<exists>e. parseInt x = Num e)"
  by (simp add: parseInt_def Let_def)

lemma expiring_in_less:
  "number_less (number_minus (Num e) (Num now)) (Num buffer) \<longleftrightarrow> e - now < buffer"
proof -
  have "(of_int e :: rat) - of_int now < of_int buffer \<longleftrightarrow> e - now < buffer"
    by (metis of_int_diff of_int_less_iff)
  then show ?thesis
    by (simp add: number_less_def number_minus_def)
qed

text \<open>
  C2. For every stored state and every reading \<open>now\<close> of a clock that is not set before
  1970 (any \<open>now\<close> above \<open>- 60\<close>), \<open>isTokenExpiringSoon()\<close> returns true exactly when the
  stored token or the stored expiry is absent (no entry, or an empty one), or no expiry
  can be computed from the stored text (\<open>parseInt\<close> answers \<open>NaN\<close>), or
  \<open>expiry - now < 60\<close>. For a session written by \<open>setTokens\<close> with a non-empty token and an
  integer expiry below \<open>10^21\<close> this is \<open>expires_at - now < 60\<close>. The bound on the clock is
  needed for the stored expiry 0 only, which the guard takes for no expiry.
\<close>

theorem isTokenExpiringSoon_iff:
  assumes "- 60 < now"
  shows "(isTokenExpiringSoon s now \<longleftrightarrow>
     getItem s ACCESS_TOKEN_KEY \<in> {None, Some []} \<or>
     getItem s ACCESS_TOKEN_EXPIRY_KEY \<in> {None, Some []} \<or>
     (\<exists>expiry. getItem s ACCESS_TOKEN_EXPIRY_KEY = Some expiry \<and>
        (parseInt expiry = NaN \<or> (\<exists>e. parseInt expiry = Num e \<and> e - now < 60)))) \<and>
   (\<bar>n\<bar> < 10 ^ 21 \<longrightarrow>
     (isTokenExpiringSoon (authService_setTokens (c # cs) (Num n) s) now \<longleftrightarrow> n - now < 60))"
proof -
  have a: "isTokenExpiringSoon s now \<longleftrightarrow>
     getItem s ACCESS_TOKEN_KEY \<in> {None, Some []} \<or>
     getItem s ACCESS_TOKEN_EXPIRY_KEY \<in> {None, Some []} \<or>
     (\<exists>expiry. getItem s ACCESS_TOKEN_EXPIRY_KEY = Some expiry \<and>
        (parseInt expiry = NaN \<or> (\<exists>e. parseInt expiry = Num e \<and> e - now < 60)))"
  proof (cases "getItem s ACCESS_TOKEN_KEY")
    case None
    then show ?thesis
      by (simp add: isTokenExpiringSoon_def authService_getAccessToken_def Let_def)
  next
    case tok: (Some t)
    show ?thesis
    proof (cases "getItem s ACCESS_TOKEN_EXPIRY_KEY")
      case None
      then show ?thesis
        by (simp add: isTokenExpiringSoon_def authService_getAccessTokenExpiry_def Let_def)
    next
      case (Some x)
      from parseInt_cases [of x] show ?thesis
      proof
        assume "parseInt x = NaN"
        with tok Some show ?thesis
          by (simp add: isTokenExpiringSoon_def authService_getAccessToken_def
              authService_getAccessTokenExpiry_def Let_def)
      next
        assume "\<exists>e. parseInt x = Num e"
        then obtain e where "parseInt x = Num e" ..
        with tok Some assms show ?thesis
          by (auto simp add: isTokenExpiringSoon_def authService_getAccessToken_def
              authService_getAccessTokenExpiry_def Let_def expiring_in_less
              ACCESS_TOKEN_BUFFER_def)
      qed
    qed
  qed
  have b: "isTokenExpiringSoon (authService_setTokens (c # cs) (Num n) s) now \<longleftrightarrow> n - now < 60"
    if "\<bar>n\<bar> < 10 ^ 21"
    using assms
    by (auto simp add: isTokenExpiringSoon_def getAccessToken_setTokens
        getAccessTokenExpiry_setTokens [OF that] Let_def expiring_in_less ACCESS_TOKEN_BUFFER_def)
  from a b show ?thesis by blast
qed

theorem isTokenExpiringSoon_iff_witness:
  "- 60 < (1700003590 :: int) \<and> - 60 < (1700000000 :: int) \<and>
   \<bar>1700003600 :: int\<bar> < 10 ^ 21 \<and>
   isTokenExpiringSoon (stored_session ''tok'' ''1700003600'') 1700003590 \<and>
   \<not> isTokenExpiringSoon (stored_session ''tok'' ''1700003600'') 1700000000 \<and>
   isTokenExpiringSoon (stored_session ''tok'' ''abc'') 1700000000 \<and>
   isTokenExpiringSoon (stored_session [] ''1700003600'') 1700000000 \<and>
   \<not> isTokenExpiringSoon (authService_setTokens ''tok'' (Num 1700003600) Map.empty) 1700000000"
proof -
  have soon: "- 60 < (1700003590 :: int)" by simp
  have early: "- 60 < (1700000000 :: int)" by simp
  have small: "\<bar>1700003600 :: int\<bar> < 10 ^ 21" by simp
  show ?thesis
    using soon early small
      isTokenExpiringSoon_iff [OF soon, where s = "stored_session ''tok'' ''1700003600''"]
      isTokenExpiringSoon_iff [OF early, where s = "stored_session ''tok'' ''1700003600''"]
      isTokenExpiringSoon_iff [OF early, where s = Map.empty
        and n = 1700003600 and c = "CHR ''t''" and cs = "''ok''"]
      isTokenExpiringSoon_iff [OF early, where s = "stored_session ''tok'' ''abc''"]
      isTokenExpiringSoon_iff [OF early, where s = "stored_session [] ''1700003600''"]
    by (simp add: stored_session_items parseInt_literals)
qed

section \<open>Registration\<close>

text \<open>
  C3, as amended. When the POST to register has succeeded and the login that follows or the
  fetch of the current user fails, the context's \<open>register\<close> sets the error to the
  message of the thrown error (or to ``Registration failed''), clears \<open>isLoading\<close>, leaves
  the context's user as it was and re-throws. Nothing is rolled back: when the login failed
  the storage is unchanged, and when the fetch of the user failed the access token and the
  expiry of the login response stay stored. No request is repeated.
\<close>

theorem register_partial_failure:
  assumes step1: "auth_register b (sent w) data = Inr message"
  shows "(auth_login b (sent w @ [POST_auth_register data])
             \<lparr>login_username = reg_email data, login_password = reg_password data\<rparr> = Inl err
          \<longrightarrow> AuthProvider_register JSON_stringify b data (st, w) =
                (Inl err,
                 st\<lparr>isLoading := False, error := Some (error_message err ''Registration failed'')\<rparr>,
                 w\<lparr>sent := sent w @ [POST_auth_register data,
                      POST_auth_login \<lparr>login_username = reg_email data, login_password = reg_password data\<rparr>]\<rparr>))
       \<and> (auth_login b (sent w @ [POST_auth_register data])
             \<lparr>login_username = reg_email data, login_password = reg_password data\<rparr> = Inr response
          \<and> users_me b (sent w @ [POST_auth_register data,
                 POST_auth_login \<lparr>login_username = reg_email data, login_password = reg_password data\<rparr>]) = Inl err
          \<longrightarrow> AuthProvider_register JSON_stringify b data (st, w) =
                (Inl err,
                 st\<lparr>isLoading := False, error := Some (error_message err ''Registration failed'')\<rparr>,
                 w\<lparr>sent := sent w @ [POST_auth_register data,
                      POST_auth_login \<lparr>login_username = reg_email data, login_password = reg_password data\<rparr>,
                      GET_users_me],
                   storage := authService_setTokens (access_token response) (expires_at response) (storage w)\<rparr>))"
  using step1
  by (simp add: AuthProvider_register_def authService_register_eq authService_login_eq
      authService_getCurrentUser_eq catch_block_def Let_def)

theorem register_partial_failure_witness:
  "auth_register backend_rejecting_login (sent fresh_world) alice_registration = Inr ''registered'' \<and>
   AuthProvider_register stringify_username backend_rejecting_login alice_registration
       (initial_auth_state, fresh_world) =
     (Inl (Error ''Invalid credentials''),
      initial_auth_state\<lparr>isLoading := False, error := Some ''Invalid credentials''\<rparr>,
      fresh_world\<lparr>sent := [POST_auth_register alice_registration, POST_auth_login alice_credentials]\<rparr>) \<and>
   auth_register backend_rejecting_users_me (sent fresh_world) alice_registration = Inr ''registered'' \<and>
   AuthProvider_register stringify_username backend_rejecting_users_me alice_registration
       (initial_auth_state, fresh_world) =
     (Inl (Error ''Unauthorized''),
      initial_auth_state\<lparr>isLoading := False, error := Some ''Unauthorized''\<rparr>,
      fresh_world\<lparr>sent := [POST_auth_register alice_registration, POST_auth_login alice_credentials,
                          GET_users_me],
                 storage := authService_setTokens ''tok'' (Num 1700003600) Map.empty\<rparr>)"
proof -
  have r1: "auth_register backend_rejecting_login (sent fresh_world) alice_registration = Inr ''registered''"
    by (simp add: backend_rejecting_login_def backend_up_def)
  have r2: "auth_register backend_rejecting_users_me (sent fresh_world) alice_registration = Inr ''registered''"
    by (simp add: backend_rejecting_users_me_def backend_up_def)
  show ?thesis
    using r1 r2
      register_partial_failure [OF r1, where err = "Error ''Invalid credentials''"
        and JSON_stringify = stringify_username and st = initial_auth_state and response = fresh_token]
      register_partial_failure [OF r2, where err = "Error ''Unauthorized''"
        and JSON_stringify = stringify_username and st = initial_auth_state and response = fresh_token]
    by (simp add: backend_rejecting_login_def backend_rejecting_users_me_def backend_up_def
        fresh_world_def fresh_token_def alice_registration_def alice_credentials_def)
qed

text \<open>
  The claim as stated fails when the fetch of the user is the step that fails: on a fresh
  client, with a backend that registers, logs in and then rejects \<open>GET /users/me\<close>, the
  operation re-throws and the token of the login response is stored, so that
  \<open>authService.isAuthenticated()\<close> is true.
\<close>

theorem register_leaves_token_counterexample:
  "auth_register backend_rejecting_users_me (sent fresh_world) alice_registration = Inr ''registered'' \<and>
   fst (AuthProvider_register stringify_username backend_rejecting_users_me alice_registration
          (initial_auth_state\<lparr>isLoading := False\<rparr>, fresh_world)) = Inl (Error ''Unauthorized'') \<and>
   getItem (storage (snd (snd (AuthProvider_register stringify_username backend_rejecting_users_me
          alice_registration (initial_auth_state\<lparr>isLoading := False\<rparr>, fresh_world)))))
       ACCESS_TOKEN_KEY = Some ''tok'' \<and>
   authService_isAuthenticated (storage (snd (snd (AuthProvider_register stringify_username
          backend_rejecting_users_me alice_registration
          (initial_auth_state\<lparr>isLoading := False\<rparr>, fresh_world)))))"
  using keys_distinct
  by (simp add: AuthProvider_register_def authService_register_eq authService_login_eq
      authService_getCurrentUser_eq catch_block_def Let_def backend_rejecting_users_me_def
      backend_up_def fresh_world_def fresh_token_def authService_setTokens_def setItem_def
      getItem_def authService_isAuthenticated_def authService_getAccessToken_def)

section \<open>Being authenticated\<close>

text \<open>
  C4. \<open>isAuthenticated()\<close> is true exactly when a non-empty string is stored under the
  access-token key. The expiry and user keys have no influence, and a non-empty token
  written by \<open>setTokens\<close> reads as authenticated whatever its expiry, also one long past.
\<close>

theorem isAuthenticated_iff_token:
  "(authService_isAuthenticated s \<longleftrightarrow> (\<exists>t. getItem s ACCESS_TOKEN_KEY = Some t \<and> t \<noteq> [])) \<and>
   authService_isAuthenticated (s(ACCESS_TOKEN_EXPIRY_KEY := e, USER_KEY := u))
     = authService_isAuthenticated s \<and>
   authService_isAuthenticated (authService_setTokens (c # cs) expiresAt s)"
proof -
  have a: "authService_isAuthenticated s \<longleftrightarrow> (\<exists>t. getItem s ACCESS_TOKEN_KEY = Some t \<and> t \<noteq> [])"
    by (cases "s ACCESS_TOKEN_KEY")
      (simp_all add: authService_isAuthenticated_def authService_getAccessToken_def getItem_def)
  have b: "authService_isAuthenticated (s(ACCESS_TOKEN_EXPIRY_KEY := e, USER_KEY := u))
     = authService_isAuthenticated s"
    using keys_distinct
    by (simp add: authService_isAuthenticated_def authService_getAccessToken_def getItem_def)
  have c: "authService_isAuthenticated (authService_setTokens (c # cs) expiresAt s)"
    by (simp add: authService_isAuthenticated_def getAccessToken_setTokens)
  from a b c show ?thesis by blast
qed

section \<open>Login\<close>

text \<open>
  C5, as amended. When \<open>authService.login\<close> succeeds, its result is the response of the
  server, the stored access token is the \<open>access_token\<close> of that response and the stored
  expiry is the text \<open>expires_at.toString()\<close>. Read back by \<open>getAccessTokenExpiry\<close> it is
  \<open>expires_at\<close> whenever \<open>expires_at\<close> is an integer of magnitude below \<open>10^21\<close>.
\<close>

theorem login_stores_response:
  assumes "fst (authService_login b data w) = Inr response"
  shows "auth_login b (sent w) data = Inr response \<and>
         authService_getAccessToken (storage (snd (authService_login b data w)))
           = Some (access_token response) \<and>
         getItem (storage (snd (authService_login b data w))) ACCESS_TOKEN_EXPIRY_KEY
           = Some (number_toString (expires_at response)) \<and>
         (expires_at response = Num n \<and> \<bar>n\<bar> < 10 ^ 21 \<longrightarrow>
            authService_getAccessTokenExpiry (storage (snd (authService_login b data w)))
              = Some (Num n))"
proof (cases "auth_login b (sent w) data")
  case (Inl err)
  with assms show ?thesis
    by (simp add: authService_login_eq)
next
  case (Inr r)
  with assms have r: "r = response"
    by (simp add: authService_login_eq)
  have "authService_getAccessTokenExpiry
          (authService_setTokens (access_token response) (expires_at response) (storage w))
        = Some (Num n)"
    if "expires_at response = Num n" "\<bar>n\<bar> < 10 ^ 21"
    using that getAccessTokenExpiry_setTokens [of n] by simp
  with Inr r show ?thesis
    by (simp add: authService_login_eq getAccessToken_setTokens getItem_expiry_setTokens)
qed

theorem login_stores_response_witness:
  "fst (authService_login backend_up alice_credentials fresh_world) = Inr fresh_token \<and>
   expires_at fresh_token = Num 1700003600 \<and> \<bar>1700003600 :: int\<bar> < 10 ^ 21 \<and>
   authService_getAccessToken (storage (snd (authService_login backend_up alice_credentials fresh_world)))
     = Some ''tok'' \<and>
   authService_getAccessTokenExpiry (storage (snd (authService_login backend_up alice_credentials fresh_world)))
     = Some (Num 1700003600)"
proof -
  have h: "fst (authService_login backend_up alice_credentials fresh_world) = Inr fresh_token"
    by (simp add: authService_login_eq backend_up_def)
  show ?thesis
    using h login_stores_response [OF h, where n = 1700003600] by (simp add: fresh_token_def)
qed

text \<open>
  The claim as stated fails for an expiry that is not such an integer. The server answers
  1700003600.5: the text stored is \<open>1700003600.5\<close> and \<open>parseInt\<close> reads 1700003600. The
  server answers \<open>10^21\<close>: the text stored is \<open>1e+21\<close> and \<open>parseInt\<close> reads 1.
\<close>

theorem login_expiry_counterexample:
  "fst (authService_login backend_fractional_expiry alice_credentials fresh_world)
     = Inr \<lparr>access_token = ''tok'', expires_at = Dec False 17000036005 10\<rparr> \<and>
   getItem (storage (snd (authService_login backend_fractional_expiry alice_credentials fresh_world)))
     ACCESS_TOKEN_EXPIRY_KEY = Some ''1700003600.5'' \<and>
   authService_getAccessTokenExpiry
     (storage (snd (authService_login backend_fractional_expiry alice_credentials fresh_world)))
     = Some (Num 1700003600) \<and>
   fst (authService_login backend_distant_expiry alice_credentials fresh_world)
     = Inr \<lparr>access_token = ''tok'', expires_at = Num 1000000000000000000000\<rparr> \<and>
   getItem (storage (snd (authService_login backend_distant_expiry alice_credentials fresh_world)))
     ACCESS_TOKEN_EXPIRY_KEY = Some ''1e+21'' \<and>
   authService_getAccessTokenExpiry
     (storage (snd (authService_login backend_distant_expiry alice_credentials fresh_world)))
     = Some (Num 1)"
  by (simp add: authService_login_eq backend_fractional_expiry_def backend_distant_expiry_def
      backend_up_def getItem_expiry_setTokens number_toString_literals
      authService_getAccessTokenExpiry_def parseInt_literals)

section \<open>Mount\<close>

text \<open>
  C6. When the provider mounts with a non-empty token in storage and the backend rejects
  \<open>GET /users/me\<close>, the mount ends with no user, \<open>isLoading\<close> false and the three keys
  removed from storage, after exactly one request: the fetch is not retried.
\<close>

theorem mount_purges_invalid_token:
  assumes "getItem (storage w) ACCESS_TOKEN_KEY = Some token" and "token \<noteq> []"
    and "users_me b (sent w) = Inl err"
  shows "user (fst (mount JSON_stringify b w)) = None \<and>
         isLoading (fst (mount JSON_stringify b w)) = False \<and>
         getItem (storage (snd (mount JSON_stringify b w))) ACCESS_TOKEN_KEY = None \<and>
         getItem (storage (snd (mount JSON_stringify b w))) ACCESS_TOKEN_EXPIRY_KEY = None \<and>
         getItem (storage (snd (mount JSON_stringify b w))) USER_KEY = None \<and>
         sent (snd (mount JSON_stringify b w)) = sent w @ [GET_users_me]"
proof -
  have "authService_isAuthenticated (storage w)"
    using assms(1,2) by (simp add: authService_isAuthenticated_def authService_getAccessToken_def)
  then have "mount JSON_stringify b w =
      (initial_auth_state\<lparr>user := None, isLoading := False\<rparr>,
       w\<lparr>sent := sent w @ [GET_users_me], storage := authService_clearTokens (storage w)\<rparr>)"
    using assms(3) by (simp add: mount_def initAuth_def authService_getCurrentUser_eq)
  then show ?thesis
    by (simp add: clearTokens_absent)
qed

theorem mount_purges_invalid_token_witness:
  "getItem (storage returning_world) ACCESS_TOKEN_KEY = Some ''tok'' \<and> ''tok'' \<noteq> [] \<and>
   users_me backend_rejecting_users_me (sent returning_world) = Inl (Error ''Unauthorized'') \<and>
   user (fst (mount stringify_username backend_rejecting_users_me returning_world)) = None \<and>
   isLoading (fst (mount stringify_username backend_rejecting_users_me returning_world)) = False \<and>
   getItem (storage (snd (mount stringify_username backend_rejecting_users_me returning_world)))
     ACCESS_TOKEN_KEY = None \<and>
   getItem (storage (snd (mount stringify_username backend_rejecting_users_me returning_world)))
     ACCESS_TOKEN_EXPIRY_KEY = None \<and>
   getItem (storage (snd (mount stringify_username backend_rejecting_users_me returning_world)))
     USER_KEY = None \<and>
   sent (snd (mount stringify_username backend_rejecting_users_me returning_world)) = [GET_users_me]"
proof -
  have t: "getItem (storage returning_world) ACCESS_TOKEN_KEY = Some ''tok''"
    by (simp add: returning_world_def stored_session_items)
  have n: "''tok'' \<noteq> []" by simp
  have f: "users_me backend_rejecting_users_me (sent returning_world) = Inl (Error ''Unauthorized'')"
    by (simp add: backend_rejecting_users_me_def)
  have s: "sent returning_world = []"
    by (simp add: returning_world_def)
  show ?thesis
    using t f s mount_purges_invalid_token [OF t n f, of stringify_username] by simp
qed

section \<open>Refresh\<close>

text \<open>
  C7. The hook's \<open>refreshToken()\<close> always returns a boolean and never throws: true when
  \<open>authService.refresh()\<close> succeeds (the new token is then stored), false when it throws,
  and then the three keys are removed from storage.
\<close>

theorem refreshToken_total:
  "(auth_refresh b (sent w) = Inr response \<longrightarrow>
      fst (refreshToken b w) = True \<and>
      authService_getAccessToken (storage (snd (refreshToken b w))) = Some (access_token response)) \<and>
   (auth_refresh b (sent w) = Inl err \<longrightarrow>
      fst (refreshToken b w) = False \<and>
      getItem (storage (snd (refreshToken b w))) ACCESS_TOKEN_KEY = None \<and>
      getItem (storage (snd (refreshToken b w))) ACCESS_TOKEN_EXPIRY_KEY = None \<and>
      getItem (storage (snd (refreshToken b w))) USER_KEY = None)"
  by (simp add: refreshToken_def authService_refresh_eq clearTokens_absent getAccessToken_setTokens)

theorem refreshToken_total_witness:
  "auth_refresh backend_up (sent returning_world) = Inr fresh_token \<and>
   fst (refreshToken backend_up returning_world) = True \<and>
   auth_refresh backend_rejecting_refresh (sent returning_world) = Inl (Error ''Unauthorized'') \<and>
   fst (refreshToken backend_rejecting_refresh returning_world) = False \<and>
   getItem (storage (snd (refreshToken backend_rejecting_refresh returning_world))) ACCESS_TOKEN_KEY = None \<and>
   getItem (storage (snd (refreshToken backend_rejecting_refresh returning_world))) ACCESS_TOKEN_EXPIRY_KEY = None \<and>
   getItem (storage (snd (refreshToken backend_rejecting_refresh returning_world))) USER_KEY = None"
proof -
  have ok: "auth_refresh backend_up (sent returning_world) = Inr fresh_token"
    by (simp add: backend_up_def)
  have ko: "auth_refresh backend_rejecting_refresh (sent returning_world) = Inl (Error ''Unauthorized'')"
    by (simp add: backend_rejecting_refresh_def)
  show ?thesis
    using ok ko
      refreshToken_total [where b = backend_up and w = returning_world and response = fresh_token]
      refreshToken_total [where b = backend_rejecting_refresh and w = returning_world
        and err = "Error ''Unauthorized''"]
    by simp
qed

section \<open>The submissions page\<close>

lemma fetched_page:
  "submissions (fetchSubmissions api st) =
     (case api ((currentPage st - 1) * itemsPerPage) itemsPerPage of
        Inr data \<Rightarrow> submissionData data | Inl err \<Rightarrow> [])"
  "loading (fetchSubmissions api st) = False"
  "currentPage (fetchSubmissions api st) = currentPage st"
  by (simp_all add: fetchSubmissions_def Let_def split: sum.splits)

lemma pagination_rendered:
  "\<not> loading st \<Longrightarrow> submissions st \<noteq> [] \<Longrightarrow>
     view_pagination (MySubmissionsPage st) =
       Some \<lparr>previous_disabled = (currentPage st = 1), pagination_info = currentPage st,
             next_disabled = (int (length (submissions st)) < itemsPerPage)\<rparr>"
  by (simp add: MySubmissionsPage_def)

lemma pagination_absent:
  "submissions st = [] \<Longrightarrow> view_pagination (MySubmissionsPage st) = None"
  by (simp add: MySubmissionsPage_def)

text \<open>
  C8, as amended. After every fetch the page holds the rows of the response (none when the
  request failed) and \<open>itemsPerPage\<close> is 10. With at least one row the Next button is
  rendered, and it is disabled exactly when the page holds fewer than \<open>itemsPerPage\<close> rows;
  with no row there is no pagination, hence no Next button. So a Next button that is not
  disabled is rendered exactly when the page holds at least \<open>itemsPerPage\<close> rows.
\<close>

theorem next_button:
  "itemsPerPage = 10 \<and>
   submissions (fetchSubmissions api st) =
     (case api ((currentPage st - 1) * itemsPerPage) itemsPerPage of
        Inr data \<Rightarrow> submissionData data | Inl err \<Rightarrow> []) \<and>
   (submissions (fetchSubmissions api st) \<noteq> [] \<longrightarrow>
      (\<exists>p. view_pagination (MySubmissionsPage (fetchSubmissions api st)) = Some p \<and>
           (next_disabled p \<longleftrightarrow>
              int (length (submissions (fetchSubmissions api st))) < itemsPerPage))) \<and>
   (submissions (fetchSubmissions api st) = [] \<longrightarrow>
      view_pagination (MySubmissionsPage (fetchSubmissions api st)) = None) \<and>
   ((\<exists>p. view_pagination (MySubmissionsPage (fetchSubmissions api st)) = Some p \<and>
         \<not> next_disabled p) \<longleftrightarrow>
      itemsPerPage \<le> int (length (submissions (fetchSubmissions api st))))"
proof -
  let ?st = "fetchSubmissions api st"
  have a: "itemsPerPage = 10"
    by (simp add: itemsPerPage_def)
  have b: "submissions ?st =
     (case api ((currentPage st - 1) * itemsPerPage) itemsPerPage of
        Inr data \<Rightarrow> submissionData data | Inl err \<Rightarrow> [])"
    by (rule fetched_page(1))
  have c: "(submissions ?st \<noteq> [] \<longrightarrow>
      (\<exists>p. view_pagination (MySubmissionsPage ?st) = Some p \<and>
           (next_disabled p \<longleftrightarrow> int (length (submissions ?st)) < itemsPerPage))) \<and>
    (submissions ?st = [] \<longrightarrow> view_pagination (MySubmissionsPage ?st) = None) \<and>
    ((\<exists>p. view_pagination (MySubmissionsPage ?st) = Some p \<and> \<not> next_disabled p) \<longleftrightarrow>
      itemsPerPage \<le> int (length (submissions ?st)))"
  proof (cases "submissions ?st = []")
    case True
    then show ?thesis
      by (simp add: pagination_absent itemsPerPage_def)
  next
    case False
    then have "view_pagination (MySubmissionsPage ?st) =
       Some \<lparr>previous_disabled = (currentPage ?st = 1), pagination_info = currentPage ?st,
             next_disabled = (int (length (submissions ?st)) < itemsPerPage)\<rparr>"
      by (simp add: pagination_rendered fetched_page(2))
    with False show ?thesis
      by auto
  qed
  from a b c show ?thesis by blast
qed

theorem next_button_witness:
  "submissions (fetchSubmissions three_submissions initial_page_state) \<noteq> [] \<and>
   view_pagination (MySubmissionsPage (fetchSubmissions three_submissions initial_page_state))
     = Some \<lparr>previous_disabled = True, pagination_info = 1, next_disabled = True\<rparr> \<and>
   int (length (submissions (fetchSubmissions three_submissions initial_page_state))) < itemsPerPage \<and>
   submissions (fetchSubmissions no_submissions initial_page_state) = [] \<and>
   view_pagination (MySubmissionsPage (fetchSubmissions no_submissions initial_page_state)) = None"
proof -
  have three:
    "submissions (fetchSubmissions three_submissions initial_page_state) \<noteq> []"
    "view_pagination (MySubmissionsPage (fetchSubmissions three_submissions initial_page_state))
       = Some \<lparr>previous_disabled = True, pagination_info = 1, next_disabled = True\<rparr>"
    "int (length (submissions (fetchSubmissions three_submissions initial_page_state))) < itemsPerPage"
    by (simp_all add: fetchSubmissions_def MySubmissionsPage_def three_submissions_def
        initial_page_state_def itemsPerPage_def Let_def)
  have none: "submissions (fetchSubmissions no_submissions initial_page_state) = []"
    by (simp add: fetchSubmissions_def no_submissions_def Let_def)
  from none next_button [of no_submissions initial_page_state]
  have "view_pagination (MySubmissionsPage (fetchSubmissions no_submissions initial_page_state)) = None"
    by blast
  with three none next_button [of three_submissions initial_page_state]
  show ?thesis by blast
qed

text \<open>
  The claim as stated fails on an empty fetched page: it holds fewer than \<open>itemsPerPage\<close>
  rows, and no Next button is rendered that could be disabled.
\<close>

theorem next_button_counterexample:
  "int (length (submissions (fetchSubmissions no_submissions initial_page_state))) < itemsPerPage \<and>
   MySubmissionsPage (fetchSubmissions no_submissions initial_page_state)
     = SubmissionsView None EmptyState \<and>
   view_pagination (MySubmissionsPage (fetchSubmissions no_submissions initial_page_state)) = None"
  by (simp add: fetchSubmissions_def MySubmissionsPage_def no_submissions_def
      initial_page_state_def itemsPerPage_def Let_def)

text \<open>
  C9, as amended. When a fetch returns zero submissions the page renders the empty state
  alone: no error banner and no pagination, so neither a Previous nor a Next button, on
  page 1 as on any other page. The Previous button is rendered with a non-empty page only,
  and is then disabled exactly on page 1.
\<close>

theorem empty_page:
  "(api ((currentPage st - 1) * itemsPerPage) itemsPerPage = Inr data \<and> submissionData data = []
      \<longrightarrow> MySubmissionsPage (fetchSubmissions api st) = SubmissionsView None EmptyState \<and>
          view_pagination (MySubmissionsPage (fetchSubmissions api st)) = None) \<and>
   (api ((currentPage st - 1) * itemsPerPage) itemsPerPage = Inr data \<and> submissionData data \<noteq> []
      \<longrightarrow> (\<exists>p. view_pagination (MySubmissionsPage (fetchSubmissions api st)) = Some p \<and>
               (previous_disabled p \<longleftrightarrow> currentPage st = 1)))"
  by (simp add: fetchSubmissions_def MySubmissionsPage_def Let_def)

theorem empty_page_witness:
  "no_submissions ((currentPage (initial_page_state :: nat page_state) - 1) * itemsPerPage) itemsPerPage
     = Inr (ArrayBody []) \<and>
   submissionData (ArrayBody ([] :: nat list)) = [] \<and>
   MySubmissionsPage (fetchSubmissions no_submissions initial_page_state)
     = SubmissionsView None EmptyState \<and>
   three_submissions ((currentPage (initial_page_state :: nat page_state) - 1) * itemsPerPage) itemsPerPage
     = Inr (ArrayBody [1, 2, 3]) \<and>
   submissionData (ArrayBody [1, 2, 3 :: nat]) \<noteq> [] \<and>
   (\<exists>p. view_pagination (MySubmissionsPage (fetchSubmissions three_submissions initial_page_state)) = Some p \<and>
        previous_disabled p)"
  using empty_page [of no_submissions initial_page_state "ArrayBody []"]
    empty_page [of three_submissions initial_page_state "ArrayBody [1, 2, 3]"]
  by (simp add: no_submissions_def three_submissions_def initial_page_state_def)

text \<open>
  The claim as stated fails on page 1 with an empty response: the empty state is shown,
  and there is no pagination, hence no Previous button that could be disabled.
\<close>

theorem empty_page_counterexample:
  "submissions (fetchSubmissions no_submissions initial_page_state) = [] \<and>
   currentPage (fetchSubmissions no_submissions initial_page_state) = 1 \<and>
   shows_empty_state (MySubmissionsPage (fetchSubmissions no_submissions initial_page_state)) \<and>
   view_pagination (MySubmissionsPage (fetchSubmissions no_submissions initial_page_state)) = None"
  by (simp add: fetchSubmissions_def MySubmissionsPage_def no_submissions_def
      initial_page_state_def itemsPerPage_def Let_def)

section \<open>The dashboard\<close>

text \<open>
  C10. The claim: the dashboard renders the customer view, \<open>ProblemsListPage\<close>, exactly
  when there is a user whose role is USER, and the admin view in every other state. The
  code: for a user whose role is USER the component throws the \<open>ReferenceError\<close>
  ``ProblemsListPage is not defined'' and renders nothing; in every other state, among
  them no user at all and the role PROBLEM_SETTER, it renders the navigation bar,
  \<open>AdminSidebar\<close> and the one section chosen there, \<open>AdminProblems\<close> or \<open>AdminIssues\<close>.
\<close>

theorem dashboard_customer_branch_throws:
  "Dashboard (Some alice) problems = Inl (Error ''ProblemsListPage is not defined'') \<and>
   Dashboard (Some (u\<lparr>role := ''USER''\<rparr>)) activeSection
     = Inl (Error ''ProblemsListPage is not defined'') \<and>
   map_sum id rendered (Dashboard usr activeSection) =
     (if \<exists>u. usr = Some u \<and> role u = ''USER''
      then Inl (Error ''ProblemsListPage is not defined'')
      else Inr [Navbar, AdminSidebar activeSection,
                case activeSection of problems \<Rightarrow> AdminProblems | issues \<Rightarrow> AdminIssues])"
  by (cases usr; cases activeSection) (auto simp add: Dashboard_def ReferenceError_def alice_def)


end
